theory Spec2Isabelle
  imports Main
begin

section \<open>JavaScript values\<close>

text \<open>
  The request bodies, cookie values and token claims handled by the server are JavaScript
  values produced by a JSON parser, plus \<open>undefined\<close> for an absent property. A string
  is a list of code units; one \<^typ>\<open>char\<close> stands for one code unit in the range
  U+0000 .. U+00FF. A number is an integer (JSON cannot produce NaN, and a fractional
  number behaves like a non-zero integer under \<open>typeof\<close> and truthiness).
\<close>

datatype jsval =
    JUndefined
  | JNull
  | JBool bool
  | JNum int
  | JStr string
  | JArr "jsval list"
  | JObj "(string \<times> jsval) list"

fun typeof :: "jsval \<Rightarrow> string" where
  "typeof JUndefined = ''undefined''"
| "typeof JNull = ''object''"
| "typeof (JBool b) = ''boolean''"
| "typeof (JNum n) = ''number''"
| "typeof (JStr s) = ''string''"
| "typeof (JArr xs) = ''object''"
| "typeof (JObj kvs) = ''object''"

text \<open>Truthiness, as tested by \<open>!x\<close>, \<open>x && ...\<close> and \<open>if (x)\<close>.\<close>

fun truthy :: "jsval \<Rightarrow> bool" where
  "truthy JUndefined = False"
| "truthy JNull = False"
| "truthy (JBool b) = b"
| "truthy (JNum n) = (n \<noteq> 0)"
| "truthy (JStr s) = (s \<noteq> [])"
| "truthy (JArr xs) = True"
| "truthy (JObj kvs) = True"

datatype js_error =
    TypeError string
  | ReferenceError string
  | Error string
  | MongoServerError int string

fun err_message :: "js_error \<Rightarrow> string" where
  "err_message (TypeError m) = m"
| "err_message (ReferenceError m) = m"
| "err_message (Error m) = m"
| "err_message (MongoServerError c m) = m"

fun err_code :: "js_error \<Rightarrow> int option" where
  "err_code (MongoServerError c m) = Some c"
| "err_code e = None"

text \<open>
  Reading a property \<open>v.k\<close>, also the reading done by a destructuring pattern \<open>{k} = v\<close>:
  it throws a TypeError on \<open>undefined\<close> and \<open>null\<close>, finds own properties of an object
  (whose keys are distinct, as a JSON parser leaves them), and finds none of the property
  names used by this server on any other value. The message of an engine-raised TypeError
  is abbreviated.
\<close>

fun get_prop :: "jsval \<Rightarrow> string \<Rightarrow> js_error + jsval" where
  "get_prop JUndefined k = Inl (TypeError (''Cannot read properties of undefined: '' @ k))"
| "get_prop JNull k = Inl (TypeError (''Cannot read properties of null: '' @ k))"
| "get_prop (JObj kvs) k = Inr (case map_of kvs k of None \<Rightarrow> JUndefined | Some v \<Rightarrow> v)"
| "get_prop v k = Inr JUndefined"

text \<open>\<open>!process.env.X\<close>: an environment variable is a string or is not set.\<close>

fun env_unset :: "string option \<Rightarrow> bool" where
  "env_unset None = True"
| "env_unset (Some s) = (s = [])"

fun env_value :: "string option \<Rightarrow> string" where
  "env_value None = []"
| "env_value (Some s) = s"

definition error_json :: "string \<Rightarrow> jsval" where
  "error_json m = JObj [(''error'', JStr m)]"

subsection \<open>String operations\<close>

text \<open>
  White space for \<open>String.prototype.trim\<close> and for the regular-expression class \<open>\s\<close>:
  TAB, LF, VT, FF, CR, SPACE and NO-BREAK SPACE are the code units below U+0100 that
  ECMAScript counts as WhiteSpace or LineTerminator.
\<close>

definition js_whitespace :: "char \<Rightarrow> bool" where
  "js_whitespace c \<longleftrightarrow> (of_char c :: nat) \<in> {9, 10, 11, 12, 13, 32, 160}"

definition js_trim :: "string \<Rightarrow> string" where
  "js_trim s = rev (dropWhile js_whitespace (rev (dropWhile js_whitespace s)))"

text \<open>
  \<open>String.prototype.toLowerCase\<close> below U+0100: A..Z and the capital letters
  U+00C0 .. U+00DE (without the multiplication sign U+00D7) move up by 32.
\<close>

definition js_toLower_unit :: "char \<Rightarrow> char" where
  "js_toLower_unit c =
     (let n = (of_char c :: nat)
      in if (65 \<le> n \<and> n \<le> 90) \<or> (192 \<le> n \<and> n \<le> 222 \<and> n \<noteq> 215)
         then char_of (n + 32) else c)"

definition js_toLowerCase :: "string \<Rightarrow> string" where
  "js_toLowerCase s = map js_toLower_unit s"

section \<open>Regular expressions\<close>

text \<open>
  The fragment of the regular-expression syntax that \<open>createUser.js\<close> uses: literal
  characters, negated character classes whose items are characters or \<open>\s\<close>, sequencing and
  the quantifier \<open>+\<close>. \<open>Void\<close>, \<open>Empty\<close>, \<open>Either\<close> and \<open>Many\<close> are needed to write the
  derivative of an expression.
\<close>

datatype class_item = CChar char | CSpace

datatype regex =
    Void
  | Empty
  | Lit char
  | NegClass "class_item list"
  | Either regex regex
  | Cat regex regex
  | Many regex

definition OneOrMore :: "regex \<Rightarrow> regex" where
  "OneOrMore r = Cat r (Many r)"

fun item_has :: "class_item \<Rightarrow> char \<Rightarrow> bool" where
  "item_has (CChar d) c = (c = d)"
| "item_has CSpace c = js_whitespace c"

definition class_excludes :: "class_item list \<Rightarrow> char \<Rightarrow> bool" where
  "class_excludes its c = list_ex (\<lambda>i. item_has i c) its"

fun accepts_empty :: "regex \<Rightarrow> bool" where
  "accepts_empty Void = False"
| "accepts_empty Empty = True"
| "accepts_empty (Lit d) = False"
| "accepts_empty (NegClass its) = False"
| "accepts_empty (Either r s) = (accepts_empty r \<or> accepts_empty s)"
| "accepts_empty (Cat r s) = (accepts_empty r \<and> accepts_empty s)"
| "accepts_empty (Many r) = True"

fun after :: "char \<Rightarrow> regex \<Rightarrow> regex" where
  "after c Void = Void"
| "after c Empty = Void"
| "after c (Lit d) = (if c = d then Empty else Void)"
| "after c (NegClass its) = (if class_excludes its c then Void else Empty)"
| "after c (Either r s) = Either (after c r) (after c s)"
| "after c (Cat r s) =
     (if accepts_empty r then Either (Cat (after c r) s) (after c s) else Cat (after c r) s)"
| "after c (Many r) = Cat (after c r) (Many r)"

text \<open>
  \<open>RegExp.prototype.test\<close> for an expression anchored by \<open>^\<close> and \<open>$\<close> and written
  without flags: the whole input has to match.
\<close>

fun regex_test :: "regex \<Rightarrow> string \<Rightarrow> bool" where
  "regex_test r [] = accepts_empty r"
| "regex_test r (c # cs) = regex_test (after c r) cs"

section \<open>Account Registrar: validation\<close>

text \<open>\<open>/^[^\s@]+@[^\s@]+\.[^\s@]+$/\<close>\<close>

definition emailRegex :: regex where
  "emailRegex =
     Cat (OneOrMore (NegClass [CSpace, CChar CHR ''@'']))
    (Cat (Lit CHR ''@'')
    (Cat (OneOrMore (NegClass [CSpace, CChar CHR ''@'']))
    (Cat (Lit CHR ''.'')
         (OneOrMore (NegClass [CSpace, CChar CHR ''@''])))))"

text \<open>
  The content of a value whose \<open>typeof\<close> is \<open>string\<close>. Every use below stands behind such
  a test (the operands of \<open>||\<close> are evaluated left to right and only as far as needed),
  so the second equation is never the one that decides.
\<close>

fun the_string :: "jsval \<Rightarrow> string" where
  "the_string (JStr s) = s"
| "the_string v = []"

definition js_length :: "jsval \<Rightarrow> nat" where
  "js_length v = length (the_string v)"

definition email_test :: "jsval \<Rightarrow> bool" where
  "email_test v = regex_test emailRegex (the_string v)"

text \<open>
  \<open>validate\<close> returns the message of the first rule that fails, and \<open>null\<close> (here
  \<open>None\<close>) when all pass. The \<open>preferences\<close> argument is received and not inspected.
\<close>

definition validate :: "jsval \<Rightarrow> jsval \<Rightarrow> jsval \<Rightarrow> jsval \<Rightarrow> string option" where
  "validate username password email preferences =
     (if \<not> truthy username \<or> typeof username \<noteq> ''string'' \<or> js_length username < 3
        then Some ''Username must be at least 3 characters long.''
      else if \<not> truthy password \<or> typeof password \<noteq> ''string'' \<or> js_length password < 6
        then Some ''Password must be at least 6 characters long.''
      else if \<not> truthy email \<or> typeof email \<noteq> ''string'' \<or> \<not> email_test email
        then Some ''Invalid email address.''
      else None)"

section \<open>Credential store\<close>

text \<open>
  The \<open>users\<close> collection. \<open>createUser\<close> builds a document without \<open>_id\<close>; the store
  assigns it on insert. \<open>outage\<close> is the message with which the driver rejects every
  round trip while the store is unreachable.
\<close>

record new_user =
  d_username :: string
  d_password :: string
  d_email :: string
  d_preferences :: jsval
  d_createdAt :: nat

record user_doc = new_user +
  d_id :: nat

record database =
  users :: "user_doc list"
  next_id :: nat
  outage :: "string option"

text \<open>
  \<open>db.js\<close>: the module variable \<open>db\<close> is unset until \<open>connectDB\<close> has run, and \<open>getDB\<close>
  throws as long as it is.
\<close>

definition getDB :: "database option \<Rightarrow> js_error + database" where
  "getDB h = (case h of None \<Rightarrow> Inl (Error ''must connect to DB first'') | Some db \<Rightarrow> Inr db)"

text \<open>\<open>findOne({username: u})\<close>: the first document whose username is exactly \<open>u\<close>.\<close>

definition findOne_username :: "database \<Rightarrow> string \<Rightarrow> js_error + user_doc option" where
  "findOne_username db u =
     (case outage db of
        Some m \<Rightarrow> Inl (Error m)
      | None \<Rightarrow> Inr (find (\<lambda>d. d_username d = u) (users db)))"

text \<open>
  Modelled from the spec: the unique indexes on username and email are created outside
  the source files; the spec gives the store "insert with uniqueness enforcement on
  username/email", and the code expects the driver's error code 11000 for a violation.
\<close>

definition duplicate_key :: js_error where
  "duplicate_key = MongoServerError 11000 ''E11000 duplicate key error''"

definition insertOne :: "database \<Rightarrow> new_user \<Rightarrow> js_error + database \<times> nat" where
  "insertOne db u =
     (case outage db of
        Some m \<Rightarrow> Inl (Error m)
      | None \<Rightarrow>
          if list_ex (\<lambda>d. d_username d = d_username u \<or> d_email d = d_email u) (users db)
          then Inl duplicate_key
          else Inr (db\<lparr>users := users db @
                       [\<lparr>d_username = d_username u, d_password = d_password u,
                         d_email = d_email u, d_preferences = d_preferences u,
                         d_createdAt = d_createdAt u, d_id = next_id db\<rparr>],
                     next_id := Suc (next_id db)\<rparr>,
                    next_id db))"

text \<open>The \<open>$set\<close> document of an update: only the fields that are present are written.\<close>

record update =
  upd_username :: "string option"
  upd_preferences :: "jsval option"

definition apply_set :: "update \<Rightarrow> user_doc \<Rightarrow> user_doc" where
  "apply_set upd d =
     (let d1 = (case upd_username upd of None \<Rightarrow> d | Some u \<Rightarrow> d\<lparr>d_username := u\<rparr>)
      in case upd_preferences upd of None \<Rightarrow> d1 | Some p \<Rightarrow> d1\<lparr>d_preferences := p\<rparr>)"

fun update_first :: "('a \<Rightarrow> bool) \<Rightarrow> ('a \<Rightarrow> 'a) \<Rightarrow> 'a list \<Rightarrow> 'a list" where
  "update_first P f [] = []"
| "update_first P f (x # xs) = (if P x then f x # xs else x # update_first P f xs)"

text \<open>
  \<open>updateOne({_id: oid}, {$set: upd})\<close>: the first document with that identity is
  changed; when there is none the call succeeds and changes nothing. A new username that
  another document holds violates the unique index (see above).
\<close>

definition updateOne_id :: "database \<Rightarrow> nat \<Rightarrow> update \<Rightarrow> js_error + database" where
  "updateOne_id db oid upd =
     (case outage db of
        Some m \<Rightarrow> Inl (Error m)
      | None \<Rightarrow>
          (case find (\<lambda>d. d_id d = oid) (users db) of
             None \<Rightarrow> Inr db
           | Some d \<Rightarrow>
               if (case upd_username upd of
                     None \<Rightarrow> False
                   | Some u \<Rightarrow> list_ex (\<lambda>e. d_id e \<noteq> oid \<and> d_username e = u) (users db))
               then Inl duplicate_key
               else Inr (db\<lparr>users := update_first (\<lambda>d. d_id d = oid) (apply_set upd) (users db)\<rparr>)))"

section \<open>External libraries\<close>

text \<open>
  \<open>jsonwebtoken\<close>, \<open>bcrypt\<close> and the driver's \<open>ObjectId\<close> are parameters of the model.
  \<open>jwt_verify tok secret\<close> is \<open>None\<close> where \<open>jwt.verify\<close> throws (bad signature,
  malformed token, elapsed expiry) at the instant of the request; the option
  \<open>expiresIn: "1d"\<close> that every call of \<open>jwt.sign\<close> passes is part of \<open>jwt_sign\<close>.
  \<open>ObjectId v\<close> is \<open>None\<close> where the constructor throws, and \<open>oid_json\<close> is the JSON form
  of an identity, as it appears in a token's claims and in a response body.
\<close>

record jwt_claims =
  c_userId :: jsval
  c_username :: jsval

record libs =
  jwt_verify :: "jsval \<Rightarrow> string \<Rightarrow> jwt_claims option"
  jwt_sign :: "jwt_claims \<Rightarrow> string \<Rightarrow> string"
  bcrypt_hash :: "string \<Rightarrow> nat \<Rightarrow> string"
  bcrypt_compare :: "string \<Rightarrow> string \<Rightarrow> bool"
  ObjectId :: "jsval \<Rightarrow> nat option"
  oid_json :: "nat \<Rightarrow> jsval"

section \<open>Credential Verifier\<close>

definition signAuthToken :: "libs \<Rightarrow> string option \<Rightarrow> user_doc \<Rightarrow> js_error + string" where
  "signAuthToken L JWT_SECRET user =
     (let payload = \<lparr>c_userId = oid_json L (d_id user), c_username = JStr (d_username user)\<rparr>;
          secret = JWT_SECRET
      in if env_unset secret then Inl (Error ''Err creating auth token'')
         else Inr (jwt_sign L payload (env_value secret)))"

text \<open>
  The object \<open>loginUser\<close> resolves to: \<open>{passed: false, message}\<close> or
  \<open>{passed: true, chocolateChipCookie, preferences}\<close>.
\<close>

datatype login_result =
    LoginFailed string
  | LoginPassed string jsval

fun passed :: "login_result \<Rightarrow> bool" where
  "passed (LoginFailed m) = False"
| "passed (LoginPassed c p) = True"

definition loginUser ::
  "libs \<Rightarrow> string option \<Rightarrow> database option \<Rightarrow> jsval \<Rightarrow> jsval \<Rightarrow> js_error + login_result" where
  "loginUser L JWT_SECRET h username password =
     (if typeof username \<noteq> ''string'' \<or> typeof password \<noteq> ''string''
      then Inr (LoginFailed ''Username and password must be strings'')
      else
        case getDB h of
          Inl e \<Rightarrow> Inl e
        | Inr db \<Rightarrow>
            (case findOne_username db (js_trim (the_string username)) of
               Inl e \<Rightarrow> Inl e
             | Inr None \<Rightarrow> Inr (LoginFailed ''Invalid username or password'')
             | Inr (Some user) \<Rightarrow>
                 if \<not> bcrypt_compare L (the_string password) (d_password user)
                 then Inr (LoginFailed ''Invalid username or password'')
                 else
                   (case signAuthToken L JWT_SECRET user of
                      Inl e \<Rightarrow> Inl e
                    | Inr cookie \<Rightarrow> Inr (LoginPassed cookie (d_preferences user)))))"

section \<open>Account Registrar\<close>

definition SALT_ROUNDS :: nat where
  "SALT_ROUNDS = 15"

text \<open>
  Name resolution at the statement \<open>return result.insertedId\<close>. The declaration
  \<open>const result = await ... insertOne(user)\<close> stands inside the block of \<open>try\<close>, so its
  binding ends with that block. What the \<open>return\<close> statement can see are the parameters
  and the \<open>let\<close>/\<open>const\<close> declarations of the function body itself and the bindings of the
  module (its imports, constants and functions); reading any other name throws a
  ReferenceError.
\<close>

definition createUser_scope :: "string list" where
  "createUser_scope =
     [''username'', ''password'', ''email'', ''preferences'', ''err'', ''hash'', ''user'', ''db'',
      ''bcrypt'', ''getDB'', ''SALT_ROUNDS'', ''USERS_COLLECTION'',
      ''validate'', ''encryptPassword'', ''createUser'']"

definition read_var :: "string list \<Rightarrow> string \<Rightarrow> 'a \<Rightarrow> js_error + 'a" where
  "read_var scope x v =
     (if x \<in> set scope then Inr v else Inl (ReferenceError (x @ '' is not defined'')))"

text \<open>
  \<open>createUser\<close> with its parameter object already taken apart; \<open>now\<close> is the value of
  \<open>new Date()\<close>. The result is the store handle after the call and either the thrown
  error or the returned identity.
\<close>

definition createUser ::
  "libs \<Rightarrow> nat \<Rightarrow> database option \<Rightarrow> jsval \<Rightarrow> jsval \<Rightarrow> jsval \<Rightarrow> jsval
     \<Rightarrow> database option \<times> (js_error + nat)" where
  "createUser L now h username password email preferences0 =
     (let preferences = (if preferences0 = JUndefined then JObj [] else preferences0)
      in case validate username password email preferences of
           Some err \<Rightarrow> (h, Inl (Error err))
         | None \<Rightarrow>
             (let hash = bcrypt_hash L (the_string password) SALT_ROUNDS;
                  user = \<lparr>d_username = js_toLowerCase (the_string username),
                          d_password = hash,
                          d_email = js_toLowerCase (the_string email),
                          d_preferences = preferences,
                          d_createdAt = now\<rparr>
              in case getDB h of
                   Inl e \<Rightarrow> (h, Inl e)
                 | Inr db \<Rightarrow>
                     (case insertOne db user of
                        Inl e \<Rightarrow>
                          if err_code e = Some 11000
                          then (h, Inl (Error ''Username or email already exists.''))
                          else (h, Inl (Error (''Error creating user: '' @ err_message e)))
                      | Inr (db', insertedId) \<Rightarrow>
                          (Some db', read_var createUser_scope ''result'' insertedId))))"

section \<open>Responses\<close>

text \<open>
  What a guard or a route handler does to the response, in the order of the calls:
  \<open>res.clearCookie(name)\<close>, \<open>res.cookie(name, value, options)\<close> (the options are the same
  constant at every call: HTTP-only, SameSite lax, 24 hours), \<open>res.status(n).json(v)\<close>
  (\<open>res.json\<close> alone sends status 200), \<open>res.redirect(path)\<close>, and \<open>next()\<close> with the
  value of \<open>req.user\<close> that the guard leaves behind.
\<close>

record req_user =
  u_id :: jsval
  u_username :: jsval

datatype res_event =
    ClearCookie string
  | SetCookie string string
  | SendJson nat jsval
  | Redirect string
  | Next "req_user option"

section \<open>Access Guard Suite\<close>

text \<open>Each guard takes the environment variable and \<open>req.cookies?.auth\<close>.\<close>

definition requireAuth :: "libs \<Rightarrow> string option \<Rightarrow> jsval \<Rightarrow> res_event list" where
  "requireAuth L JWT_SECRET token =
     (if env_unset JWT_SECRET then [SendJson 500 (error_json ''Server misconfigured'')]
      else if \<not> truthy token then [SendJson 401 (error_json ''Unauthorized'')]
      else
        case jwt_verify L token (env_value JWT_SECRET) of
          Some decoded \<Rightarrow> [Next (Some \<lparr>u_id = c_userId decoded, u_username = c_username decoded\<rparr>)]
        | None \<Rightarrow> [ClearCookie ''auth'', SendJson 401 (error_json ''Unauthorized'')])"

definition requireAuthPage :: "libs \<Rightarrow> string option \<Rightarrow> jsval \<Rightarrow> res_event list" where
  "requireAuthPage L JWT_SECRET token =
     (if \<not> truthy token \<or> env_unset JWT_SECRET then [Redirect ''/login'']
      else
        case jwt_verify L token (env_value JWT_SECRET) of
          Some decoded \<Rightarrow> [Next (Some \<lparr>u_id = c_userId decoded, u_username = c_username decoded\<rparr>)]
        | None \<Rightarrow> [ClearCookie ''auth'', Redirect ''/login''])"

definition reverseAuthPage :: "libs \<Rightarrow> string option \<Rightarrow> jsval \<Rightarrow> res_event list" where
  "reverseAuthPage L JWT_SECRET token =
     (if \<not> truthy token \<or> env_unset JWT_SECRET then [Next None]
      else
        case jwt_verify L token (env_value JWT_SECRET) of
          Some decoded \<Rightarrow> [Redirect ''/'']
        | None \<Rightarrow> [ClearCookie ''auth'', Next None])"

definition reverseAuth :: "libs \<Rightarrow> string option \<Rightarrow> jsval \<Rightarrow> res_event list" where
  "reverseAuth L JWT_SECRET token =
     (if \<not> truthy token \<or> env_unset JWT_SECRET then [Next None]
      else
        case jwt_verify L token (env_value JWT_SECRET) of
          Some decoded \<Rightarrow> [SendJson 400 (error_json ''Already logged in'')]
        | None \<Rightarrow> [ClearCookie ''auth'', Next None])"

section \<open>Route layer\<close>

text \<open>
  The handlers of \<open>server.js\<close>, each run after its guard has called \<open>next()\<close>. A handler
  takes the store handle and the request (\<open>req.user\<close>, \<open>req.body\<close>) and gives the store
  handle after the request and what it did to the response.
\<close>

text \<open>\<open>POST /api/user\<close>, behind \<open>reverseAuth\<close>.\<close>

definition post_api_user ::
  "libs \<Rightarrow> string option \<Rightarrow> nat \<Rightarrow> database option \<Rightarrow> jsval
     \<Rightarrow> database option \<times> res_event list" where
  "post_api_user L JWT_SECRET now h body =
     (case (get_prop body ''username'', get_prop body ''password'',
            get_prop body ''email'', get_prop body ''preferences'') of
        (Inr username, Inr password, Inr email, Inr preferences) \<Rightarrow>
          (case createUser L now h username password email preferences of
             (h1, Inl err) \<Rightarrow> (h1, [SendJson 400 (error_json (err_message err))])
           | (h1, Inr userId) \<Rightarrow>
               (case loginUser L JWT_SECRET h1 username password of
                  Inl err \<Rightarrow> (h1, [SendJson 400 (error_json (err_message err))])
                | Inr (LoginFailed m) \<Rightarrow>
                    (h1, [SendJson 400 (error_json
                            (if m \<noteq> [] then m else ''Unable to login newly created user''))])
                | Inr (LoginPassed cookie prefs) \<Rightarrow>
                    (h1, [SetCookie ''auth'' cookie,
                          SendJson 201 (JObj [(''userId'', oid_json L userId),
                                              (''username'', username),
                                              (''preferences'', prefs)])])))
      | (Inl err, _) \<Rightarrow> (h, [SendJson 400 (error_json (err_message err))])
      | (_, Inl err, _) \<Rightarrow> (h, [SendJson 400 (error_json (err_message err))])
      | (_, _, Inl err, _) \<Rightarrow> (h, [SendJson 400 (error_json (err_message err))])
      | (_, _, _, Inl err) \<Rightarrow> (h, [SendJson 400 (error_json (err_message err))]))"

text \<open>\<open>POST /api/preferences\<close>, behind \<open>requireAuth\<close>.\<close>

definition post_api_preferences ::
  "libs \<Rightarrow> database option \<Rightarrow> req_user \<Rightarrow> jsval \<Rightarrow> database option \<times> res_event list" where
  "post_api_preferences L h user body =
     (case get_prop body ''preferences'' of
        Inl err \<Rightarrow> (h, [SendJson 500 (error_json ''Server error'')])
      | Inr preferences \<Rightarrow>
          if typeof preferences \<noteq> ''object''
          then (h, [SendJson 400 (error_json ''Invalid preferences format'')])
          else if \<not> truthy (u_id user)
          then (h, [SendJson 401 (error_json ''not logged in'')])
          else
            (case getDB h of
               Inl err \<Rightarrow> (h, [SendJson 500 (error_json ''Server error'')])
             | Inr db \<Rightarrow>
                 (case ObjectId L (u_id user) of
                    None \<Rightarrow> (h, [SendJson 500 (error_json ''Server error'')])
                  | Some oid \<Rightarrow>
                      (case updateOne_id db oid
                              \<lparr>upd_username = None, upd_preferences = Some preferences\<rparr> of
                         Inl err \<Rightarrow> (h, [SendJson 500 (error_json ''Server error'')])
                       | Inr db' \<Rightarrow>
                           (Some db',
                            [SendJson 200
                               (JObj [(''message'', JStr ''Preferences updated successfully'')])])))))"

text \<open>
  \<open>POST /api/updateUsr\<close>, behind \<open>requireAuth\<close>. \<open>update\<close> starts empty and receives the
  fields that pass their tests; \<open>Object.keys(update).length === 0\<close> is the test that
  neither was set.
\<close>

definition post_api_updateUsr ::
  "libs \<Rightarrow> string option \<Rightarrow> database option \<Rightarrow> req_user \<Rightarrow> jsval
     \<Rightarrow> database option \<times> res_event list" where
  "post_api_updateUsr L JWT_SECRET h user body =
     (case getDB h of
        Inl err \<Rightarrow> (h, [SendJson 500 (error_json ''Server error'')])
      | Inr db \<Rightarrow>
          (case (get_prop body ''username'', get_prop body ''preferences'') of
             (Inr username, Inr preferences) \<Rightarrow>
               if \<not> truthy (u_id user)
               then (h, [SendJson 401 (error_json ''not logged in'')])
               else
                 (let upd = \<lparr>upd_username =
                               (if typeof username = ''string'' \<and> js_trim (the_string username) \<noteq> []
                                then Some (js_trim (the_string username)) else None),
                             upd_preferences =
                               (if truthy preferences \<and> typeof preferences = ''object''
                                then Some preferences else None)\<rparr>
                  in if upd_username upd = None \<and> upd_preferences upd = None
                     then (h, [SendJson 400 (error_json ''No valid fields to update'')])
                     else
                       (case ObjectId L (u_id user) of
                          None \<Rightarrow> (h, [SendJson 500 (error_json ''Server error'')])
                        | Some oid \<Rightarrow>
                            (case updateOne_id db oid upd of
                               Inl err \<Rightarrow> (h, [SendJson 500 (error_json ''Server error'')])
                             | Inr db' \<Rightarrow>
                                 (Some db',
                                  (case upd_username upd of
                                     None \<Rightarrow> []
                                   | Some u \<Rightarrow>
                                       if env_unset JWT_SECRET then []
                                       else [SetCookie ''auth''
                                               (jwt_sign L \<lparr>c_userId = u_id user, c_username = JStr u\<rparr>
                                                  (env_value JWT_SECRET))])
                                  @ [SendJson 200
                                       (JObj [(''message'', JStr ''User updated successfully''),
                                              (''username'',
                                                 (case upd_username upd of
                                                    None \<Rightarrow> u_username user
                                                  | Some u \<Rightarrow> JStr u)),
                                              (''preferences'',
                                                 (case upd_preferences upd of
                                                    None \<Rightarrow> JUndefined
                                                  | Some p \<Rightarrow> p))])]))))
           | (Inl err, _) \<Rightarrow> (h, [SendJson 500 (error_json ''Server error'')])
           | (_, Inl err) \<Rightarrow> (h, [SendJson 500 (error_json ''Server error'')])))"

section \<open>Reading the email pattern\<close>

text \<open>
  The words matched by an expression, to state what \<open>emailRegex\<close> accepts without
  running it: \<open>repeats A\<close> are the concatenations of any number of words of \<open>A\<close>.
\<close>

inductive_set repeats :: "string set \<Rightarrow> string set" for A :: "string set" where
  none: "[] \<in> repeats A"
| more: "u \<in> A \<Longrightarrow> v \<in> repeats A \<Longrightarrow> u @ v \<in> repeats A"

fun denotes :: "regex \<Rightarrow> string set" where
  "denotes Void = {}"
| "denotes Empty = {[]}"
| "denotes (Lit d) = {[d]}"
| "denotes (NegClass its) = {[c] | c. \<not> class_excludes its c}"
| "denotes (Either r s) = denotes r \<union> denotes s"
| "denotes (Cat r s) = {u @ v | u v. u \<in> denotes r \<and> v \<in> denotes s}"
| "denotes (Many r) = repeats (denotes r)"

text \<open>
  A part of an email address (local part, domain, top-level segment) as the expression's
  class \<open>[^\s@]+\<close> has it: not empty, and free of white space and of the at sign.
\<close>

definition email_part :: "string \<Rightarrow> bool" where
  "email_part w \<longleftrightarrow> w \<noteq> [] \<and> (\<forall>c \<in> set w. \<not> js_whitespace c \<and> c \<noteq> CHR ''@'')"

text \<open>
  The same part in the words of the specification ("non-whitespace local part,
  non-whitespace domain, literal dot, non-whitespace TLD segment"): not empty and free of
  white space, with nothing said about the at sign.
\<close>

definition nonspace_part :: "string \<Rightarrow> bool" where
  "nonspace_part w \<longleftrightarrow> w \<noteq> [] \<and> list_all (\<lambda>c. \<not> js_whitespace c) w"

section \<open>A concrete instance of the libraries and of the store\<close>

text \<open>
  Small stand-ins for the external libraries, to run the model on concrete requests: a hash
  is the password behind a marker, a token is the secret and the username claim behind a
  marker, identities are positive numbers, and the verifier knows the token of the user
  \<open>alice\<close> with identity 1.
\<close>

definition sample_hash :: "string \<Rightarrow> nat \<Rightarrow> string" where
  "sample_hash p rounds = ''hash:'' @ p"

definition sample_compare :: "string \<Rightarrow> string \<Rightarrow> bool" where
  "sample_compare p hash \<longleftrightarrow> hash = ''hash:'' @ p"

definition sample_sign :: "jwt_claims \<Rightarrow> string \<Rightarrow> string" where
  "sample_sign claims secret = ''signed:'' @ secret @ '':'' @ the_string (c_username claims)"

definition sample_verify :: "jsval \<Rightarrow> string \<Rightarrow> jwt_claims option" where
  "sample_verify tok secret =
     (if tok = JStr (''signed:'' @ secret @ '':alice'')
      then Some \<lparr>c_userId = JNum 1, c_username = JStr ''alice''\<rparr> else None)"

fun sample_ObjectId :: "jsval \<Rightarrow> nat option" where
  "sample_ObjectId (JNum n) = (if 0 < n then Some (nat n) else None)"
| "sample_ObjectId v = None"

definition sample_oid_json :: "nat \<Rightarrow> jsval" where
  "sample_oid_json n = JNum (int n)"

definition sample_libs :: libs where
  "sample_libs =
     \<lparr>jwt_verify = sample_verify, jwt_sign = sample_sign,
      bcrypt_hash = sample_hash, bcrypt_compare = sample_compare,
      ObjectId = sample_ObjectId, oid_json = sample_oid_json\<rparr>"

definition empty_db :: database where
  "empty_db = \<lparr>users = [], next_id = 1, outage = None\<rparr>"

text \<open>The store after \<open>alice\<close> has registered with password \<open>secret1\<close> at time 0.\<close>

definition alice_doc :: user_doc where
  "alice_doc =
     \<lparr>d_username = ''alice'', d_password = ''hash:secret1'', d_email = ''a@b.co'',
      d_preferences = JObj [], d_createdAt = 0, d_id = 1\<rparr>"

definition alice_db :: database where
  "alice_db = \<lparr>users = [alice_doc], next_id = 2, outage = None\<rparr>"

definition alice_user :: req_user where
  "alice_user = \<lparr>u_id = JNum 1, u_username = JStr ''alice''\<rparr>"

section \<open>Properties of the regular-expression engine\<close>

lemma accepts_empty_denotes: "accepts_empty r \<longleftrightarrow> [] \<in> denotes r"
  by (induction r) (auto intro: repeats.none)

lemma repeats_cons:
  "c # w \<in> repeats A \<longleftrightarrow> (\<exists>u v. c # u \<in> A \<and> v \<in> repeats A \<and> w = u @ v)"
proof
  assume "c # w \<in> repeats A"
  then show "\<exists>u v. c # u \<in> A \<and> v \<in> repeats A \<and> w = u @ v"
  proof (induction "c # w" arbitrary: w rule: repeats.induct)
    case (more u v)
    show ?case
    proof (cases u)
      case Nil
      with more show ?thesis by simp
    next
      case (Cons a u')
      with more.hyps more.prems show ?thesis by auto
    qed
  qed
next
  assume "\<exists>u v. c # u \<in> A \<and> v \<in> repeats A \<and> w = u @ v"
  then obtain u v where "c # u \<in> A" "v \<in> repeats A" "w = u @ v" by blast
  then show "c # w \<in> repeats A" using repeats.more [of "c # u" A v] by simp
qed

lemma after_denotes: "w \<in> denotes (after c r) \<longleftrightarrow> c # w \<in> denotes r"
proof (induction r arbitrary: w)
  case (Cat r s)
  have "c # w \<in> denotes (Cat r s) \<longleftrightarrow>
          ([] \<in> denotes r \<and> c # w \<in> denotes s) \<or>
          (\<exists>u v. c # u \<in> denotes r \<and> v \<in> denotes s \<and> w = u @ v)"
    by (auto simp: Cons_eq_append_conv)
  with Cat show ?case
    by (auto simp: accepts_empty_denotes)
next
  case (Many r)
  then show ?case by (auto simp: repeats_cons)
qed auto

lemma regex_test_denotes: "regex_test r w \<longleftrightarrow> w \<in> denotes r"
  by (induction w arbitrary: r) (simp_all add: accepts_empty_denotes after_denotes)

lemma repeats_units:
  "repeats {[c] | c. P c} = {w. \<forall>c \<in> set w. P c}"
proof (rule set_eqI, rule iffI)
  fix w assume "w \<in> repeats {[c] | c. P c}"
  then show "w \<in> {w. \<forall>c \<in> set w. P c}"
    by (induction rule: repeats.induct) auto
next
  fix w assume "w \<in> {w. \<forall>c \<in> set w. P c}"
  then have "\<forall>c \<in> set w. P c" by simp
  then show "w \<in> repeats {[c] | c. P c}"
  proof (induction w)
    case Nil
    show ?case by (rule repeats.none)
  next
    case (Cons a w)
    then have "[a] \<in> {[c] | c. P c}" and "w \<in> repeats {[c] | c. P c}" by auto
    then have "[a] @ w \<in> repeats {[c] | c. P c}" by (rule repeats.more)
    then show ?case by simp
  qed
qed

lemma denotes_OneOrMore_NegClass:
  "denotes (OneOrMore (NegClass its)) = {w. w \<noteq> [] \<and> (\<forall>c \<in> set w. \<not> class_excludes its c)}"
proof (rule set_eqI)
  fix w
  show "w \<in> denotes (OneOrMore (NegClass its)) \<longleftrightarrow>
        w \<in> {w. w \<noteq> [] \<and> (\<forall>c \<in> set w. \<not> class_excludes its c)}"
  proof (cases w)
    case Nil
    then show ?thesis by (simp add: OneOrMore_def)
  next
    case (Cons a v)
    have "a # v \<in> denotes (OneOrMore (NegClass its)) \<longleftrightarrow>
            \<not> class_excludes its a \<and> v \<in> repeats {[c] | c. \<not> class_excludes its c}"
    proof
      assume "a # v \<in> denotes (OneOrMore (NegClass its))"
      then show "\<not> class_excludes its a \<and> v \<in> repeats {[c] | c. \<not> class_excludes its c}"
        by (auto simp: OneOrMore_def)
    next
      assume ok: "\<not> class_excludes its a \<and> v \<in> repeats {[c] | c. \<not> class_excludes its c}"
      then have "[a] \<in> denotes (NegClass its)" and "v \<in> denotes (Many (NegClass its))"
        by simp_all
      then have "[a] @ v \<in> denotes (Cat (NegClass its) (Many (NegClass its)))"
        unfolding denotes.simps(6) by blast
      then show "a # v \<in> denotes (OneOrMore (NegClass its))"
        by (simp add: OneOrMore_def)
    qed
    with Cons show ?thesis by (simp add: repeats_units)
  qed
qed

lemma denotes_Cat_iff:
  "w \<in> denotes (Cat r s) \<longleftrightarrow> (\<exists>u v. w = u @ v \<and> u \<in> denotes r \<and> v \<in> denotes s)"
  by auto

lemma denotes_email_part:
  "w \<in> denotes (OneOrMore (NegClass [CSpace, CChar CHR ''@''])) \<longleftrightarrow> email_part w"
  by (simp add: denotes_OneOrMore_NegClass email_part_def class_excludes_def)

lemma emailRegex_shape:
  "regex_test emailRegex s \<longleftrightarrow>
     (\<exists>local domain tld. s = local @ ''@'' @ domain @ ''.'' @ tld \<and>
        email_part local \<and> email_part domain \<and> email_part tld)"
proof -
  have "regex_test emailRegex s \<longleftrightarrow>
          (\<exists>u1 v1. s = u1 @ v1 \<and> email_part u1 \<and>
            (\<exists>u2 v2. v1 = u2 @ v2 \<and> u2 = ''@'' \<and>
              (\<exists>u3 v3. v2 = u3 @ v3 \<and> email_part u3 \<and>
                (\<exists>u4 v4. v3 = u4 @ v4 \<and> u4 = ''.'' \<and> email_part v4))))"
    unfolding regex_test_denotes emailRegex_def
    by (simp only: denotes_Cat_iff denotes_email_part denotes.simps(3) singleton_iff)
  also have "\<dots> \<longleftrightarrow>
          (\<exists>local domain tld. s = local @ ''@'' @ domain @ ''.'' @ tld \<and>
             email_part local \<and> email_part domain \<and> email_part tld)"
    by blast
  finally show ?thesis .
qed

section \<open>Properties of the string operations\<close>

lemma js_trim_empty_iff: "js_trim s = [] \<longleftrightarrow> (\<forall>c \<in> set s. js_whitespace c)"
proof -
  have rest: "(\<forall>c \<in> set (dropWhile js_whitespace s). js_whitespace c) \<longleftrightarrow>
              dropWhile js_whitespace s = []"
  proof (cases "dropWhile js_whitespace s")
    case Nil
    show ?thesis unfolding Nil by simp
  next
    case (Cons a v)
    have "\<not> js_whitespace a" using hd_dropWhile [of js_whitespace s] Cons by simp
    then show ?thesis unfolding Cons by auto
  qed
  have "js_trim s = [] \<longleftrightarrow> dropWhile js_whitespace (rev (dropWhile js_whitespace s)) = []"
    by (simp only: js_trim_def rev_is_Nil_conv)
  also have "\<dots> \<longleftrightarrow> (\<forall>c \<in> set (dropWhile js_whitespace s). js_whitespace c)"
    by (simp only: dropWhile_eq_Nil_conv set_rev)
  also have "\<dots> \<longleftrightarrow> dropWhile js_whitespace s = []"
    by (rule rest)
  also have "\<dots> \<longleftrightarrow> (\<forall>c \<in> set s. js_whitespace c)"
    by (simp only: dropWhile_eq_Nil_conv)
  finally show ?thesis .
qed

lemma string_rule:
  "0 < n \<Longrightarrow>
   (\<not> truthy v \<or> typeof v \<noteq> ''string'' \<or> js_length v < n) \<longleftrightarrow> \<not> (\<exists>s. v = JStr s \<and> n \<le> length s)"
  by (cases v) (auto simp: js_length_def)

lemma username_rule:
  "(\<not> truthy v \<or> typeof v \<noteq> ''string'' \<or> js_length v < 3) \<longleftrightarrow> \<not> (\<exists>s. v = JStr s \<and> 3 \<le> length s)"
  using string_rule [of 3 v] by simp

lemma password_rule:
  "(\<not> truthy v \<or> typeof v \<noteq> ''string'' \<or> js_length v < 6) \<longleftrightarrow> \<not> (\<exists>s. v = JStr s \<and> 6 \<le> length s)"
  using string_rule [of 6 v] by simp

lemma email_rule:
  "(\<not> truthy v \<or> typeof v \<noteq> ''string'' \<or> \<not> email_test v) \<longleftrightarrow>
   \<not> (\<exists>local domain tld. v = JStr (local @ ''@'' @ domain @ ''.'' @ tld) \<and>
         email_part local \<and> email_part domain \<and> email_part tld)"
proof (cases v)
  case (JStr s)
  have "s \<noteq> []" if "regex_test emailRegex s"
    using that by (auto simp: emailRegex_shape)
  with JStr show ?thesis
    by (auto simp: email_test_def emailRegex_shape)
qed (simp_all add: email_test_def)

section \<open>Auxiliary facts about the handlers\<close>

text \<open>
  \<open>createUser\<close> has no normal return at all: every path ends in a thrown error. And the
  full-replace handler rejects every value whose \<open>typeof\<close> is not \<open>object\<close>.
\<close>

lemma createUser_never_returns:
  "snd (createUser L now h username password email preferences) \<noteq> Inr userId"
  by (simp add: createUser_def Let_def read_var_def createUser_scope_def
      split: option.splits sum.splits prod.splits)

lemma post_api_preferences_rejects:
  "get_prop body ''preferences'' = Inr preferences \<Longrightarrow> typeof preferences \<noteq> ''object'' \<Longrightarrow>
   post_api_preferences L h user body = (h, [SendJson 400 (error_json ''Invalid preferences format'')])"
  by (simp add: post_api_preferences_def)

section \<open>Account Registrar: what registration returns\<close>

text \<open>
  C1 (the code departs from the claim). The claim: for every valid registration input
  whose insert does not hit a uniqueness violation, \<open>createUser\<close> returns the identity
  of the inserted record. The code: whenever validation passes and the insert succeeds,
  the record is in the store and \<open>createUser\<close> throws the ReferenceError
  \<open>result is not defined\<close>, because \<open>result\<close> is declared inside the block of \<open>try\<close> and
  read after it.
\<close>

theorem createUser_throws_after_insert:
  assumes "validate username password email preferences = None"
    and "insertOne db
           \<lparr>d_username = js_toLowerCase (the_string username),
            d_password = bcrypt_hash L (the_string password) SALT_ROUNDS,
            d_email = js_toLowerCase (the_string email),
            d_preferences = (if preferences = JUndefined then JObj [] else preferences),
            d_createdAt = now\<rparr>
         = Inr (db', insertedId)"
  shows "createUser L now (Some db) username password email preferences
           = (Some db', Inl (ReferenceError ''result is not defined''))"
proof -
  have "validate username password email (if preferences = JUndefined then JObj [] else preferences)
          = None"
    using assms(1) by (simp add: validate_def)
  moreover have "read_var createUser_scope ''result'' insertedId
                   = Inl (ReferenceError ''result is not defined'')"
    by (simp add: read_var_def createUser_scope_def)
  ultimately show ?thesis
    using assms(2) by (simp add: createUser_def Let_def getDB_def)
qed

text \<open>
  At the registration of \<open>alice\<close> on the empty store: the record is inserted, the call
  throws, and \<open>POST /api/user\<close> answers 400 with the message of the ReferenceError.
\<close>

theorem createUser_throws_after_insert_witness:
  "validate (JStr ''alice'') (JStr ''secret1'') (JStr ''a@b.co'') JUndefined = None
   \<and> createUser sample_libs 0 (Some empty_db)
         (JStr ''alice'') (JStr ''secret1'') (JStr ''a@b.co'') JUndefined
       = (Some alice_db, Inl (ReferenceError ''result is not defined''))
   \<and> post_api_user sample_libs (Some ''s3cret'') 0 (Some empty_db)
         (JObj [(''username'', JStr ''alice''), (''password'', JStr ''secret1''),
                (''email'', JStr ''a@b.co'')])
       = (Some alice_db, [SendJson 400 (error_json ''result is not defined'')])"
proof -
  have a: "validate (JStr ''alice'') (JStr ''secret1'') (JStr ''a@b.co'') JUndefined = None"
    by code_simp
  have b: "insertOne empty_db
             \<lparr>d_username = js_toLowerCase (the_string (JStr ''alice'')),
              d_password = bcrypt_hash sample_libs (the_string (JStr ''secret1'')) SALT_ROUNDS,
              d_email = js_toLowerCase (the_string (JStr ''a@b.co'')),
              d_preferences = (if JUndefined = JUndefined then JObj [] else JUndefined),
              d_createdAt = 0\<rparr>
           = Inr (alice_db, 1)"
    by code_simp
  have c: "post_api_user sample_libs (Some ''s3cret'') 0 (Some empty_db)
             (JObj [(''username'', JStr ''alice''), (''password'', JStr ''secret1''),
                    (''email'', JStr ''a@b.co'')])
           = (Some alice_db, [SendJson 400 (error_json ''result is not defined'')])"
    by code_simp
  from a c createUser_throws_after_insert [OF a b] show ?thesis
    by blast
qed

section \<open>Registration followed by login\<close>

text \<open>
  C2 (the code departs from the claim). The claim: a login with the username and password
  given at registration succeeds, for every username, mixed-case ones included. The
  code: registration stores the username in lower case and untrimmed, login looks up the
  trimmed username in the case it was typed; whenever the two differ (and no other record
  bears the typed name) the login after a registration fails with the generic message.
\<close>

theorem login_after_registration_fails:
  assumes "validate (JStr u) (JStr p) (JStr e) preferences = None"
    and "outage db = None"
    and "\<not> list_ex (\<lambda>d. d_username d = js_trim u) (users db)"
    and "js_trim u \<noteq> js_toLowerCase u"
    and "fst (createUser L now (Some db) (JStr u) (JStr p) (JStr e) preferences) = Some db'"
  shows "loginUser L JWT_SECRET (Some db') (JStr u) (JStr p)
           = Inr (LoginFailed ''Invalid username or password'')"
proof -
  have valid: "validate (JStr u) (JStr p) (JStr e)
                 (if preferences = JUndefined then JObj [] else preferences) = None"
    using assms(1) by (simp add: validate_def)
  have absent: "find (\<lambda>d. d_username d = js_trim u) (users db) = None"
    using assms(3) by (simp add: find_None_iff list_ex_iff)
  have "find (\<lambda>d. d_username d = js_trim u) (users db') = None \<and> outage db' = None"
    using assms(2,4,5) valid absent
    by (auto simp: createUser_def Let_def getDB_def insertOne_def find_None_iff
             split: if_splits)
  then show ?thesis
    by (simp add: loginUser_def getDB_def findOne_username_def)
qed

text \<open>
  Registering \<open>Alice\<close> stores \<open>alice\<close>; the login as \<open>Alice\<close> fails, the login as
  \<open>alice\<close> with the same password passes.
\<close>

theorem login_after_registration_fails_witness:
  "createUser sample_libs 0 (Some empty_db)
       (JStr ''Alice'') (JStr ''secret1'') (JStr ''a@b.co'') JUndefined
     = (Some alice_db, Inl (ReferenceError ''result is not defined''))
   \<and> js_trim ''Alice'' = ''Alice'' \<and> js_toLowerCase ''Alice'' = ''alice''
   \<and> loginUser sample_libs (Some ''s3cret'') (Some alice_db) (JStr ''Alice'') (JStr ''secret1'')
     = Inr (LoginFailed ''Invalid username or password'')
   \<and> loginUser sample_libs (Some ''s3cret'') (Some alice_db) (JStr ''alice'') (JStr ''secret1'')
     = Inr (LoginPassed ''signed:s3cret:alice'' (JObj []))"
proof -
  have a: "validate (JStr ''Alice'') (JStr ''secret1'') (JStr ''a@b.co'') JUndefined = None"
    by code_simp
  have b: "outage empty_db = None"
    by (simp add: empty_db_def)
  have c: "\<not> list_ex (\<lambda>d. d_username d = js_trim ''Alice'') (users empty_db)"
    by (simp add: empty_db_def)
  have d1: "js_trim ''Alice'' = ''Alice''" and d2: "js_toLowerCase ''Alice'' = ''alice''"
    by code_simp+
  have d: "js_trim ''Alice'' \<noteq> js_toLowerCase ''Alice''"
    unfolding d1 d2 by simp
  have e: "createUser sample_libs 0 (Some empty_db)
             (JStr ''Alice'') (JStr ''secret1'') (JStr ''a@b.co'') JUndefined
           = (Some alice_db, Inl (ReferenceError ''result is not defined''))"
    by code_simp
  then have f: "fst (createUser sample_libs 0 (Some empty_db)
             (JStr ''Alice'') (JStr ''secret1'') (JStr ''a@b.co'') JUndefined) = Some alice_db"
    by simp
  have g: "loginUser sample_libs (Some ''s3cret'') (Some alice_db) (JStr ''alice'') (JStr ''secret1'')
             = Inr (LoginPassed ''signed:s3cret:alice'' (JObj []))"
    by code_simp
  from d1 d2 e g login_after_registration_fails [OF a b c d f, of "Some ''s3cret''"]
  show ?thesis by blast
qed

section \<open>Preference full-replace\<close>

text \<open>
  C3 (the code departs from the claim). The claim: a \<open>preferences\<close> value that is not
  object-shaped, \<open>null\<close> included, is answered with 400 and leaves the store alone. The
  code: \<open>typeof null\<close> is \<open>object\<close>, so for an authenticated user \<open>null\<close> passes the
  test, is written to the record and the answer is 200. (\<open>post_api_preferences_rejects\<close>
  is the part that holds: a value whose \<open>typeof\<close> is not \<open>object\<close> gets 400 and the store
  is untouched.)
\<close>

theorem preferences_null_is_stored:
  assumes "get_prop body ''preferences'' = Inr JNull"
    and "truthy (u_id user)"
    and "ObjectId L (u_id user) = Some oid"
    and "updateOne_id db oid \<lparr>upd_username = None, upd_preferences = Some JNull\<rparr> = Inr db'"
  shows "post_api_preferences L (Some db) user body
           = (Some db',
              [SendJson 200 (JObj [(''message'', JStr ''Preferences updated successfully'')])])"
  using assms by (simp add: post_api_preferences_def getDB_def)

text \<open>For \<open>alice\<close> and the body \<open>{preferences: null}\<close>: her record now holds \<open>null\<close>.\<close>

theorem preferences_null_is_stored_witness:
  "post_api_preferences sample_libs (Some alice_db) alice_user (JObj [(''preferences'', JNull)])
     = (Some (alice_db\<lparr>users := [alice_doc\<lparr>d_preferences := JNull\<rparr>]\<rparr>),
        [SendJson 200 (JObj [(''message'', JStr ''Preferences updated successfully'')])])"
proof -
  have a: "get_prop (JObj [(''preferences'', JNull)]) ''preferences'' = Inr JNull"
    by simp
  have b: "truthy (u_id alice_user)"
    by (simp add: alice_user_def)
  have c: "ObjectId sample_libs (u_id alice_user) = Some 1"
    by (simp add: alice_user_def sample_libs_def)
  have d: "updateOne_id alice_db 1 \<lparr>upd_username = None, upd_preferences = Some JNull\<rparr>
             = Inr (alice_db\<lparr>users := [alice_doc\<lparr>d_preferences := JNull\<rparr>]\<rparr>)"
    by code_simp
  show ?thesis
    by (rule preferences_null_is_stored [OF a b c d])
qed

section \<open>Credential Verifier: inputs that are not strings\<close>

text \<open>
  C4, as stated, fails: a login whose username or password is not a string is not answered
  with the generic message \<open>Invalid username or password\<close>. For the username 5:
\<close>

theorem loginUser_non_string_counterexample:
  "loginUser sample_libs (Some ''s3cret'') (Some alice_db) (JNum 5) (JStr ''secret1'')
     = Inr (LoginFailed ''Username and password must be strings'')
   \<and> loginUser sample_libs (Some ''s3cret'') (Some alice_db) (JNum 5) (JStr ''secret1'')
     \<noteq> Inr (LoginFailed ''Invalid username or password'')"
  by code_simp

text \<open>
  C4, amended. For every login input in which username or password is not a string,
  \<open>loginUser\<close> fails, without reading the store, with the message
  \<open>Username and password must be strings\<close>, a message of its own and not the generic one
  of the wrong-password and unknown-user failures.
\<close>

theorem loginUser_non_string_message:
  "typeof username \<noteq> ''string'' \<or> typeof password \<noteq> ''string'' \<Longrightarrow>
   loginUser L JWT_SECRET h username password
     = Inr (LoginFailed ''Username and password must be strings'')"
  by (simp add: loginUser_def)

theorem loginUser_non_string_message_witness:
  "typeof (JStr ''alice'') = ''string'' \<and> typeof JNull \<noteq> ''string'' \<and>
   loginUser sample_libs (Some ''s3cret'') (Some alice_db) (JStr ''alice'') JNull
     = Inr (LoginFailed ''Username and password must be strings'')"
  using loginUser_non_string_message
          [of "JStr ''alice''" JNull sample_libs "Some ''s3cret''" "Some alice_db"]
  by simp

section \<open>Access guards without a signing secret\<close>

text \<open>
  C5, as stated, fails: without a signing secret \<open>requireAuthPage\<close> does not answer with
  a server error, it redirects to the login page.
\<close>

theorem requireAuthPage_no_secret_counterexample:
  "requireAuthPage sample_libs None (JStr ''signed:s3cret:alice'') = [Redirect ''/login'']
   \<and> requireAuthPage sample_libs None (JStr ''signed:s3cret:alice'')
       \<noteq> [SendJson 500 (error_json ''Server misconfigured'')]"
  by code_simp

text \<open>
  C5, amended. For every request, when no signing secret is configured, both
  require-guards fail closed, whether or not a token cookie is present: \<open>requireAuth\<close>
  answers 500 \<open>Server misconfigured\<close> and \<open>requireAuthPage\<close> redirects to \<open>/login\<close>;
  neither calls the handler and neither touches the cookie.
\<close>

theorem require_guards_without_secret:
  "env_unset JWT_SECRET \<Longrightarrow>
   requireAuth L JWT_SECRET token = [SendJson 500 (error_json ''Server misconfigured'')]
   \<and> requireAuthPage L JWT_SECRET token = [Redirect ''/login'']"
  by (simp add: requireAuth_def requireAuthPage_def)

theorem require_guards_without_secret_witness:
  "env_unset None \<and>
   requireAuth sample_libs None (JStr ''signed:s3cret:alice'')
     = [SendJson 500 (error_json ''Server misconfigured'')]
   \<and> requireAuthPage sample_libs None (JStr ''signed:s3cret:alice'') = [Redirect ''/login'']"
  using require_guards_without_secret [of None sample_libs "JStr ''signed:s3cret:alice''"]
  by simp

section \<open>The username written by a profile update\<close>

text \<open>
  C6 (the code departs from the claim). The claim: every operation that writes the
  username stores it in lower case, \<open>POST /api/updateUsr\<close> like registration. The code:
  \<open>POST /api/updateUsr\<close> writes the new username trimmed and in the case it was typed.
\<close>

theorem updateUsr_stores_trimmed_username:
  assumes "get_prop body ''username'' = Inr (JStr s)"
    and "get_prop body ''preferences'' = Inr JUndefined"
    and "js_trim s \<noteq> []"
    and "truthy (u_id user)"
    and "ObjectId L (u_id user) = Some oid"
    and "outage db = None"
    and "find (\<lambda>d. d_id d = oid) (users db) = Some d"
    and "\<not> list_ex (\<lambda>e. d_id e \<noteq> oid \<and> d_username e = js_trim s) (users db)"
  shows "fst (post_api_updateUsr L JWT_SECRET (Some db) user body)
           = Some (db\<lparr>users := update_first (\<lambda>d. d_id d = oid)
                                   (\<lambda>d. d\<lparr>d_username := js_trim s\<rparr>) (users db)\<rparr>)"
proof -
  have "apply_set \<lparr>upd_username = Some (js_trim s), upd_preferences = None\<rparr>
          = (\<lambda>d. d\<lparr>d_username := js_trim s\<rparr>)"
    by (rule ext) (simp add: apply_set_def)
  with assms show ?thesis
    by (simp add: post_api_updateUsr_def getDB_def updateOne_id_def Let_def)
qed

text \<open>Renaming \<open>alice\<close> to \<open>Bob\<close> stores \<open>Bob\<close>, whose lower-case form is \<open>bob\<close>.\<close>

theorem updateUsr_stores_trimmed_username_witness:
  "post_api_updateUsr sample_libs (Some ''s3cret'') (Some alice_db) alice_user
       (JObj [(''username'', JStr ''Bob'')])
     = (Some (alice_db\<lparr>users := [alice_doc\<lparr>d_username := ''Bob''\<rparr>]\<rparr>),
        [SetCookie ''auth'' ''signed:s3cret:Bob'',
         SendJson 200 (JObj [(''message'', JStr ''User updated successfully''),
                             (''username'', JStr ''Bob''),
                             (''preferences'', JUndefined)])])
   \<and> fst (post_api_updateUsr sample_libs (Some ''s3cret'') (Some alice_db) alice_user
            (JObj [(''username'', JStr ''Bob'')]))
     = Some (alice_db\<lparr>users := update_first (\<lambda>d. d_id d = 1)
                                   (\<lambda>d. d\<lparr>d_username := js_trim ''Bob''\<rparr>) (users alice_db)\<rparr>)
   \<and> js_trim ''Bob'' = ''Bob'' \<and> js_toLowerCase ''Bob'' = ''bob''"
proof -
  have a: "get_prop (JObj [(''username'', JStr ''Bob'')]) ''username'' = Inr (JStr ''Bob'')"
    by simp
  have b: "get_prop (JObj [(''username'', JStr ''Bob'')]) ''preferences'' = Inr JUndefined"
    by simp
  have t: "js_trim ''Bob'' = ''Bob''" and l: "js_toLowerCase ''Bob'' = ''bob''"
    by code_simp+
  have c: "js_trim ''Bob'' \<noteq> []"
    unfolding t by simp
  have d: "truthy (u_id alice_user)"
    by (simp add: alice_user_def)
  have e: "ObjectId sample_libs (u_id alice_user) = Some 1"
    by (simp add: alice_user_def sample_libs_def)
  have f: "outage alice_db = None"
    by (simp add: alice_db_def)
  have g: "find (\<lambda>d. d_id d = 1) (users alice_db) = Some alice_doc"
    by (simp add: alice_db_def alice_doc_def)
  have h: "\<not> list_ex (\<lambda>e. d_id e \<noteq> 1 \<and> d_username e = js_trim ''Bob'') (users alice_db)"
    by (simp add: alice_db_def alice_doc_def)
  have r: "post_api_updateUsr sample_libs (Some ''s3cret'') (Some alice_db) alice_user
             (JObj [(''username'', JStr ''Bob'')])
           = (Some (alice_db\<lparr>users := [alice_doc\<lparr>d_username := ''Bob''\<rparr>]\<rparr>),
              [SetCookie ''auth'' ''signed:s3cret:Bob'',
               SendJson 200 (JObj [(''message'', JStr ''User updated successfully''),
                                   (''username'', JStr ''Bob''),
                                   (''preferences'', JUndefined)])])"
    by code_simp
  from r t l updateUsr_stores_trimmed_username [OF a b c d e f g h, of "Some ''s3cret''"]
  show ?thesis by blast
qed

section \<open>Access guards on a token that fails verification\<close>

text \<open>
  C7. For every request that carries a token cookie on which verification fails (with a
  signing secret configured, \<open>jwt.verify\<close> throws on the cookie), each of the four guards
  clears the \<open>auth\<close> cookie before its own branch: \<open>requireAuth\<close> then rejects with 401,
  \<open>requireAuthPage\<close> then redirects to \<open>/login\<close>, \<open>reverseAuth\<close> and \<open>reverseAuthPage\<close>
  then proceed.
\<close>

theorem guards_clear_cookie_on_failed_verification:
  assumes "\<not> env_unset JWT_SECRET"
    and "truthy token"
    and "jwt_verify L token (env_value JWT_SECRET) = None"
  shows "requireAuth L JWT_SECRET token
           = [ClearCookie ''auth'', SendJson 401 (error_json ''Unauthorized'')]
       \<and> requireAuthPage L JWT_SECRET token = [ClearCookie ''auth'', Redirect ''/login'']
       \<and> reverseAuth L JWT_SECRET token = [ClearCookie ''auth'', Next None]
       \<and> reverseAuthPage L JWT_SECRET token = [ClearCookie ''auth'', Next None]"
  using assms
  by (simp add: requireAuth_def requireAuthPage_def reverseAuth_def reverseAuthPage_def)

theorem guards_clear_cookie_on_failed_verification_witness:
  "\<not> env_unset (Some ''s3cret'') \<and> truthy (JStr ''forged'')
   \<and> jwt_verify sample_libs (JStr ''forged'') (env_value (Some ''s3cret'')) = None
   \<and> requireAuth sample_libs (Some ''s3cret'') (JStr ''forged'')
       = [ClearCookie ''auth'', SendJson 401 (error_json ''Unauthorized'')]
   \<and> requireAuthPage sample_libs (Some ''s3cret'') (JStr ''forged'')
       = [ClearCookie ''auth'', Redirect ''/login'']
   \<and> reverseAuth sample_libs (Some ''s3cret'') (JStr ''forged'') = [ClearCookie ''auth'', Next None]
   \<and> reverseAuthPage sample_libs (Some ''s3cret'') (JStr ''forged'') = [ClearCookie ''auth'', Next None]"
proof -
  have a: "\<not> env_unset (Some ''s3cret'')" and b: "truthy (JStr ''forged'')"
    by simp_all
  have c: "jwt_verify sample_libs (JStr ''forged'') (env_value (Some ''s3cret'')) = None"
    by (simp add: sample_libs_def sample_verify_def)
  from a b c guards_clear_cookie_on_failed_verification [OF a b c] show ?thesis
    by blast
qed

section \<open>Credential Verifier: unknown user and wrong password\<close>

text \<open>
  C8. For every pair of login attempts, one with a username for which the store has no
  record and one with the username of a record and a password that does not match its
  hash, \<open>loginUser\<close> gives the same result in both: not passed, with the message
  \<open>Invalid username or password\<close>.
\<close>

theorem loginUser_failures_indistinguishable:
  assumes "findOne_username db1 (js_trim u1) = Inr None"
    and "findOne_username db2 (js_trim u2) = Inr (Some user)"
    and "\<not> bcrypt_compare L p2 (d_password user)"
  shows "loginUser L JWT_SECRET (Some db1) (JStr u1) (JStr p1)
           = Inr (LoginFailed ''Invalid username or password'')
       \<and> loginUser L JWT_SECRET (Some db2) (JStr u2) (JStr p2)
           = loginUser L JWT_SECRET (Some db1) (JStr u1) (JStr p1)"
  using assms by (simp add: loginUser_def getDB_def)

theorem loginUser_failures_indistinguishable_witness:
  "findOne_username alice_db (js_trim ''mallory'') = Inr None
   \<and> findOne_username alice_db (js_trim ''alice'') = Inr (Some alice_doc)
   \<and> \<not> bcrypt_compare sample_libs ''guess12'' (d_password alice_doc)
   \<and> loginUser sample_libs (Some ''s3cret'') (Some alice_db) (JStr ''mallory'') (JStr ''secret1'')
       = Inr (LoginFailed ''Invalid username or password'')
   \<and> loginUser sample_libs (Some ''s3cret'') (Some alice_db) (JStr ''alice'') (JStr ''guess12'')
       = loginUser sample_libs (Some ''s3cret'') (Some alice_db) (JStr ''mallory'') (JStr ''secret1'')"
proof -
  have a: "findOne_username alice_db (js_trim ''mallory'') = Inr None"
    by code_simp
  have b: "findOne_username alice_db (js_trim ''alice'') = Inr (Some alice_doc)"
    by code_simp
  have c: "\<not> bcrypt_compare sample_libs ''guess12'' (d_password alice_doc)"
    by code_simp
  from a b c loginUser_failures_indistinguishable [OF a b c, of "Some ''s3cret''" "''secret1''"]
  show ?thesis by blast
qed

section \<open>Account Registrar: the validation rules\<close>

text \<open>
  C9, as stated, fails: read by its words, the email pattern (a non-whitespace local part,
  the at sign, a non-whitespace domain, a dot, a non-whitespace top-level segment) is met
  by \<open>a@b@c.d\<close> with the parts \<open>a\<close>, \<open>b@c\<close> and \<open>d\<close>, and validation rejects this
  address with the email message.
\<close>

theorem validate_email_pattern_counterexample:
  "''a@b@c.d'' = ''a'' @ ''@'' @ ''b@c'' @ ''.'' @ ''d''
   \<and> nonspace_part ''a'' \<and> nonspace_part ''b@c'' \<and> nonspace_part ''d''
   \<and> validate (JStr ''alice'') (JStr ''secret1'') (JStr ''a@b@c.d'') JUndefined
       = Some ''Invalid email address.''"
  by code_simp

text \<open>
  C9, amended. For every registration input, validation applies the three rules in order
  and the first failing rule gives the outcome and its message: a username that is not a
  string of length at least 3 fails with the username message; otherwise a password that
  is not a string of length at least 6 fails with the password message; otherwise an
  email that is not of the form local, at sign, domain, dot, top-level segment, each part
  not empty and free of white space and of the at sign, fails with the email message;
  otherwise validation passes. A failed validation makes \<open>createUser\<close> throw that
  message and leaves the store as it was.
\<close>

theorem validate_first_failing_rule:
  "validate username password email preferences =
     (if \<not> (\<exists>s. username = JStr s \<and> 3 \<le> length s)
        then Some ''Username must be at least 3 characters long.''
      else if \<not> (\<exists>s. password = JStr s \<and> 6 \<le> length s)
        then Some ''Password must be at least 6 characters long.''
      else if \<not> (\<exists>local domain tld. email = JStr (local @ ''@'' @ domain @ ''.'' @ tld) \<and>
                    email_part local \<and> email_part domain \<and> email_part tld)
        then Some ''Invalid email address.''
      else None)
   \<and> (\<forall>m. validate username password email preferences = Some m \<longrightarrow>
          createUser L now h username password email preferences = (h, Inl (Error m)))"
proof
  show "validate username password email preferences =
     (if \<not> (\<exists>s. username = JStr s \<and> 3 \<le> length s)
        then Some ''Username must be at least 3 characters long.''
      else if \<not> (\<exists>s. password = JStr s \<and> 6 \<le> length s)
        then Some ''Password must be at least 6 characters long.''
      else if \<not> (\<exists>local domain tld. email = JStr (local @ ''@'' @ domain @ ''.'' @ tld) \<and>
                    email_part local \<and> email_part domain \<and> email_part tld)
        then Some ''Invalid email address.''
      else None)"
    unfolding validate_def
    by (simp only: username_rule password_rule email_rule)
next
  have "validate username password email (if preferences = JUndefined then JObj [] else preferences)
          = validate username password email preferences"
    by (simp add: validate_def)
  then show "\<forall>m. validate username password email preferences = Some m \<longrightarrow>
          createUser L now h username password email preferences = (h, Inl (Error m))"
    by (simp add: createUser_def Let_def)
qed

theorem validate_first_failing_rule_witness:
  "validate (JStr ''al'') (JStr ''secret1'') (JStr ''a@b.co'') JUndefined
     = Some ''Username must be at least 3 characters long.''
   \<and> createUser sample_libs 0 (Some empty_db) (JStr ''al'') (JStr ''secret1'') (JStr ''a@b.co'') JUndefined
     = (Some empty_db, Inl (Error ''Username must be at least 3 characters long.''))"
proof -
  have "validate (JStr ''al'') (JStr ''secret1'') (JStr ''a@b.co'') JUndefined
          = Some ''Username must be at least 3 characters long.''"
    by (simp add: validate_def js_length_def)
  with validate_first_failing_rule
         [of "JStr ''al''" "JStr ''secret1''" "JStr ''a@b.co''" JUndefined sample_libs 0 "Some empty_db",
          THEN conjunct2]
  show ?thesis by blast
qed

section \<open>Profile update without a valid field\<close>

text \<open>
  C10, as stated, fails: an authenticated request without a body (\<open>req.body\<close> is
  \<open>undefined\<close>) supplies neither field, the destructuring of \<open>req.body\<close> throws inside
  \<open>try\<close>, and the answer is 500 \<open>Server error\<close>, not 400.
\<close>

theorem updateUsr_without_body_counterexample:
  "post_api_updateUsr sample_libs (Some ''s3cret'') (Some alice_db) alice_user JUndefined
     = (Some alice_db, [SendJson 500 (error_json ''Server error'')])
   \<and> post_api_updateUsr sample_libs (Some ''s3cret'') (Some alice_db) alice_user JUndefined
     \<noteq> (Some alice_db, [SendJson 400 (error_json ''No valid fields to update'')])"
  by code_simp

text \<open>
  C10, amended. For every authenticated request to \<open>POST /api/updateUsr\<close> that supplies
  neither a username that is a string with a character other than white space nor a
  preferences value that is a truthy object, the store is as before and no cookie is set;
  the answer is 400 \<open>No valid fields to update\<close> when the request has a body, and 500
  \<open>Server error\<close> when \<open>req.body\<close> is \<open>undefined\<close> or \<open>null\<close>.
\<close>

theorem updateUsr_no_valid_fields:
  assumes "truthy (u_id user)"
    and "\<not> (\<exists>s. get_prop body ''username'' = Inr (JStr s) \<and> (\<exists>c \<in> set s. \<not> js_whitespace c))"
    and "\<not> (\<exists>p. get_prop body ''preferences'' = Inr p \<and> truthy p \<and> typeof p = ''object'')"
  shows "post_api_updateUsr L JWT_SECRET (Some db) user body
           = (Some db,
              if body = JUndefined \<or> body = JNull
              then [SendJson 500 (error_json ''Server error'')]
              else [SendJson 400 (error_json ''No valid fields to update'')])"
proof (cases "body = JUndefined \<or> body = JNull")
  case True
  then show ?thesis
    by (auto simp: post_api_updateUsr_def getDB_def)
next
  case False
  then obtain username preferences
    where u: "get_prop body ''username'' = Inr username"
      and p: "get_prop body ''preferences'' = Inr preferences"
    by (cases body) simp_all
  have no_name: "(typeof username = ''string'' \<and> js_trim (the_string username) \<noteq> []) = False"
    using assms(2) u by (cases username) (auto simp: js_trim_empty_iff)
  have no_prefs: "(truthy preferences \<and> typeof preferences = ''object'') = False"
    using assms(3) p by simp
  have "upd_username \<lparr>upd_username =
                (if typeof username = ''string'' \<and> js_trim (the_string username) \<noteq> []
                 then Some (js_trim (the_string username)) else None),
              upd_preferences =
                (if truthy preferences \<and> typeof preferences = ''object''
                 then Some preferences else None)\<rparr> = None"
    by (simp only: no_name if_False update.simps)
  moreover have "upd_preferences \<lparr>upd_username =
                (if typeof username = ''string'' \<and> js_trim (the_string username) \<noteq> []
                 then Some (js_trim (the_string username)) else None),
              upd_preferences =
                (if truthy preferences \<and> typeof preferences = ''object''
                 then Some preferences else None)\<rparr> = None"
    by (simp only: no_prefs if_False update.simps)
  ultimately have "post_api_updateUsr L JWT_SECRET (Some db) user body
           = (Some db, [SendJson 400 (error_json ''No valid fields to update'')])"
    by (simp only: post_api_updateUsr_def getDB_def assms(1) u p Let_def
          option.case sum.case prod.case simp_thms if_True if_False)
  with False show ?thesis by simp
qed

theorem updateUsr_no_valid_fields_witness:
  "truthy (u_id alice_user)
   \<and> post_api_updateUsr sample_libs (Some ''s3cret'') (Some alice_db) alice_user
         (JObj [(''username'', JStr ''  ''), (''preferences'', JNull)])
       = (Some alice_db, [SendJson 400 (error_json ''No valid fields to update'')])
   \<and> post_api_updateUsr sample_libs (Some ''s3cret'') (Some alice_db) alice_user JUndefined
       = (Some alice_db, [SendJson 500 (error_json ''Server error'')])"
proof -
  have a: "truthy (u_id alice_user)" by (simp add: alice_user_def)
  have b: "\<not> (\<exists>s. get_prop (JObj [(''username'', JStr ''  ''), (''preferences'', JNull)]) ''username''
                   = Inr (JStr s) \<and> (\<exists>c \<in> set s. \<not> js_whitespace c))"
    by (simp add: js_whitespace_def)
  have c: "\<not> (\<exists>p. get_prop (JObj [(''username'', JStr ''  ''), (''preferences'', JNull)]) ''preferences''
                   = Inr p \<and> truthy p \<and> typeof p = ''object'')"
    by auto
  have b': "\<not> (\<exists>s. get_prop JUndefined ''username'' = Inr (JStr s) \<and> (\<exists>c \<in> set s. \<not> js_whitespace c))"
    by simp
  have c': "\<not> (\<exists>p. get_prop JUndefined ''preferences'' = Inr p \<and> truthy p \<and> typeof p = ''object'')"
    by simp
  from a updateUsr_no_valid_fields [OF a b c, of sample_libs "Some ''s3cret''" alice_db]
       updateUsr_no_valid_fields [OF a b' c', of sample_libs "Some ''s3cret''" alice_db]
  show ?thesis by simp
qed

end
